theory Spec2Isabelle
  imports Complex_Main
begin

section \<open>Numbers\<close>

text \<open>
  The page computes with JavaScript numbers. A finite number is modelled by the exact
  rational it denotes (type \<open>rat\<close>); the literals of the source (8.5, 1.5, 0.25, 0.03, ...)
  are written as they stand. The two places where the source divides by a quantity that is
  not a literal (the ARV ratio and the monthly payment) produce a \<open>jsnum\<close>, which adds the
  three non-finite values a JavaScript division can return. Zero is taken as positive zero.
\<close>

datatype jsnum = Finite rat | PosInfinity | NegInfinity | NaN

fun js_sub :: "jsnum \<Rightarrow> jsnum \<Rightarrow> jsnum" where
  "js_sub NaN _ = NaN"
| "js_sub _ NaN = NaN"
| "js_sub (Finite x) (Finite y) = Finite (x - y)"
| "js_sub (Finite x) PosInfinity = NegInfinity"
| "js_sub (Finite x) NegInfinity = PosInfinity"
| "js_sub PosInfinity PosInfinity = NaN"
| "js_sub PosInfinity _ = PosInfinity"
| "js_sub NegInfinity NegInfinity = NaN"
| "js_sub NegInfinity _ = NegInfinity"

fun js_div :: "jsnum \<Rightarrow> jsnum \<Rightarrow> jsnum" where
  "js_div NaN _ = NaN"
| "js_div _ NaN = NaN"
| "js_div (Finite x) (Finite y) =
     (if y \<noteq> 0 then Finite (x / y)
      else if 0 < x then PosInfinity
      else if x < 0 then NegInfinity
      else NaN)"
| "js_div (Finite x) _ = Finite 0"
| "js_div PosInfinity (Finite y) = (if 0 \<le> y then PosInfinity else NegInfinity)"
| "js_div NegInfinity (Finite y) = (if 0 \<le> y then NegInfinity else PosInfinity)"
| "js_div _ _ = NaN"

text \<open>\<open>Math.pow(b, e)\<close> for a finite base and an integral exponent.\<close>

definition js_pow :: "rat \<Rightarrow> int \<Rightarrow> jsnum" where
  "js_pow b e =
     (if 0 \<le> e then Finite (b ^ nat e)
      else if b = 0 then PosInfinity
      else Finite (1 / b ^ nat (- e)))"

text \<open>The comparison \<open>a < b\<close> of a division result with a finite number.\<close>

fun js_less :: "jsnum \<Rightarrow> rat \<Rightarrow> bool" where
  "js_less (Finite x) y = (x < y)"
| "js_less NegInfinity y = True"
| "js_less PosInfinity y = False"
| "js_less NaN y = False"

text \<open>\<open>Math.round\<close>: the nearest integer, a tie going up.\<close>

definition js_round :: "rat \<Rightarrow> rat" where
  "js_round x = of_int \<lfloor>x + 1 / 2\<rfloor>"

fun js_round_num :: "jsnum \<Rightarrow> jsnum" where
  "js_round_num (Finite x) = Finite (js_round x)"
| "js_round_num v = v"

text \<open>
  The text a template literal inserts for an integral number: its decimal digits, with a
  minus sign when negative (below \<open>10^21\<close> in magnitude, where JavaScript prints digits).
\<close>

definition digit_char :: "nat \<Rightarrow> char" where
  "digit_char n = ''0123456789'' ! (n mod 10)"

fun nat_digits :: "nat \<Rightarrow> string" where
  "nat_digits n = (if n < 10 then [digit_char n] else nat_digits (n div 10) @ [digit_char n])"

declare nat_digits.simps [simp del]

definition js_toString :: "int \<Rightarrow> string" where
  "js_toString i = (if i < 0 then CHR ''-'' # nat_digits (nat (- i)) else nat_digits (nat i))"

section \<open>The form and its schema\<close>

record LoanSizerForm =
  address :: string
  transactionType :: string
  purchasePrice :: rat
  rehabBudget :: rat
  arv :: rat
  borrowerFico :: rat
  borrowerExperience :: string

text \<open>
  An issue of the schema: the field it is about and the message the schema gives for it
  (\<open>None\<close> where the schema gives none and the library's default text is shown).
\<close>

type_synonym issue = "string \<times> string option"

definition loanSizerSchema :: "LoanSizerForm \<Rightarrow> issue list" where
  "loanSizerSchema data =
     (if length (address data) < 1 then [(''address'', Some ''Address is required'')] else []) @
     (if transactionType data \<notin> set [''Purchase'', ''Refinance'', ''Cash-Out Refinance'']
      then [(''transactionType'', None)] else []) @
     (if purchasePrice data < 1000
      then [(''purchasePrice'', Some ''Purchase price must be at least $1,000'')] else []) @
     (if rehabBudget data < 0
      then [(''rehabBudget'', Some ''Rehab budget cannot be negative'')] else []) @
     (if arv data < 1000 then [(''arv'', Some ''ARV must be at least $1,000'')] else []) @
     (if borrowerFico data < 300 then [(''borrowerFico'', None)] else []) @
     (if 850 < borrowerFico data
      then [(''borrowerFico'', Some ''FICO score must be between 300-850'')] else []) @
     (if borrowerExperience data \<notin>
           set [''Beginner'', ''Intermediate'', ''Experienced'', ''Professional'']
      then [(''borrowerExperience'', None)] else [])"

section \<open>Loan formulas\<close>

definition loanFormulas_maxLoanAmount :: "rat \<Rightarrow> rat \<Rightarrow> rat" where
  "loanFormulas_maxLoanAmount a l = a * (l / 100)"

definition loanFormulas_interestRate :: "rat \<Rightarrow> string \<Rightarrow> rat" where
  "loanFormulas_interestRate fico experience =
     (let baseRate = 8.5;
          baseRate = (if 750 \<le> fico then baseRate - 1.5
                      else if 700 \<le> fico then baseRate - 1.0
                      else if 650 \<le> fico then baseRate - 0.5
                      else baseRate);
          baseRate = (if experience = ''Professional'' then baseRate - 0.5
                      else if experience = ''Experienced'' then baseRate - 0.25
                      else baseRate)
      in max baseRate 6.0)"

definition loanFormulas_ltvByExperience :: "string \<Rightarrow> rat" where
  "loanFormulas_ltvByExperience experience =
     (if experience = ''Professional'' then 85
      else if experience = ''Experienced'' then 80
      else if experience = ''Intermediate'' then 75
      else if experience = ''Beginner'' then 70
      else 70)"

definition loanFormulas_closingCosts :: "rat \<Rightarrow> rat" where
  "loanFormulas_closingCosts loanAmount = loanAmount * 0.03"

definition loanFormulas_originationFee :: "rat \<Rightarrow> rat" where
  "loanFormulas_originationFee loanAmount = loanAmount * 0.01"

section \<open>Validation rules\<close>

text \<open>
  The module-level constant \<open>validationRules\<close> that \<open>validateInputs\<close> and \<open>calculateLoan\<close>
  read is passed to them explicitly; \<open>onSubmit\<close> supplies the constant. The threshold
  \<open>minFico\<close> is an integral number (650 in the source) and is kept as an \<open>int\<close>, which the
  template literal of the first message prints as its digits.
\<close>

record ValidationRules =
  minFico :: int
  maxRehabBudget :: "rat \<Rightarrow> rat"
  minArvToPurchaseRatio :: rat

definition validationRules :: ValidationRules where
  "validationRules =
     \<lparr> minFico = 650,
       maxRehabBudget = (\<lambda>p. p * 0.5),
       minArvToPurchaseRatio = 1.2 \<rparr>"

definition ficoMessage :: "ValidationRules \<Rightarrow> string" where
  "ficoMessage rules =
     ''FICO score must be at least '' @ js_toString (minFico rules) @ '' for approval''"

definition rehabMessage :: string where
  "rehabMessage = ''Rehab budget cannot exceed 50% of purchase price''"

definition arvMessage :: string where
  "arvMessage = ''ARV should be at least 120% of purchase price for optimal financing''"

definition validateInputs :: "ValidationRules \<Rightarrow> LoanSizerForm \<Rightarrow> string list" where
  "validateInputs rules data =
     (let errors = [];
          errors = (if borrowerFico data < of_int (minFico rules)
                    then errors @ [ficoMessage rules] else errors);
          errors = (if maxRehabBudget rules (purchasePrice data) < rehabBudget data
                    then errors @ [rehabMessage] else errors);
          errors = (if js_less (js_div (Finite (arv data)) (Finite (purchasePrice data)))
                         (minArvToPurchaseRatio rules)
                    then errors @ [arvMessage] else errors)
      in errors)"

section \<open>The calculation\<close>

record LoanTerms =
  maxLoanAmount :: rat
  interestRate :: rat
  ltv :: rat
  downPayment :: rat
  closingCosts :: rat
  originationFee :: rat
  monthlyPayment :: jsnum
  totalProjectCost :: rat
  approvalStatus :: string

text \<open>The constants of the body of \<open>calculateLoan\<close>, one definition for each.\<close>

definition local_ltv :: "LoanSizerForm \<Rightarrow> rat" where
  "local_ltv data = loanFormulas_ltvByExperience (borrowerExperience data)"

definition local_maxLoanAmount :: "LoanSizerForm \<Rightarrow> rat" where
  "local_maxLoanAmount data = loanFormulas_maxLoanAmount (arv data) (local_ltv data)"

definition local_interestRate :: "LoanSizerForm \<Rightarrow> rat" where
  "local_interestRate data =
     loanFormulas_interestRate (borrowerFico data) (borrowerExperience data)"

definition local_closingCosts :: "LoanSizerForm \<Rightarrow> rat" where
  "local_closingCosts data = loanFormulas_closingCosts (local_maxLoanAmount data)"

definition local_originationFee :: "LoanSizerForm \<Rightarrow> rat" where
  "local_originationFee data = loanFormulas_originationFee (local_maxLoanAmount data)"

definition local_totalProjectCost :: "LoanSizerForm \<Rightarrow> rat" where
  "local_totalProjectCost data = purchasePrice data + rehabBudget data"

definition local_downPayment :: "LoanSizerForm \<Rightarrow> rat" where
  "local_downPayment data = local_totalProjectCost data - local_maxLoanAmount data"

text \<open>
  The expression of the monthly payment, as a function of the two constants it reads:
  the loan amount \<open>m\<close> and the interest rate \<open>r\<close>.
\<close>

definition monthlyPaymentExpr :: "rat \<Rightarrow> rat \<Rightarrow> jsnum" where
  "monthlyPaymentExpr m r =
     js_div (Finite (m * (r / 100) / 12))
            (js_sub (Finite 1) (js_pow (1 + (r / 100) / 12) (- 360)))"

definition local_monthlyPayment :: "LoanSizerForm \<Rightarrow> jsnum" where
  "local_monthlyPayment data =
     monthlyPaymentExpr (local_maxLoanAmount data) (local_interestRate data)"

definition calculateLoan :: "ValidationRules \<Rightarrow> LoanSizerForm \<Rightarrow> LoanTerms" where
  "calculateLoan rules data =
     \<lparr> maxLoanAmount = js_round (local_maxLoanAmount data),
       interestRate = js_round (local_interestRate data * 100) / 100,
       ltv = local_ltv data,
       downPayment = js_round (local_downPayment data),
       closingCosts = js_round (local_closingCosts data),
       originationFee = js_round (local_originationFee data),
       monthlyPayment = js_round_num (local_monthlyPayment data),
       totalProjectCost = js_round (local_totalProjectCost data),
       approvalStatus =
         (if of_int (minFico rules) \<le> borrowerFico data then ''Approved''
          else ''Pending Review'') \<rparr>"

section \<open>The page\<close>

text \<open>
  The state of the page: the result shown, the violations shown, the busy flag, and the
  issues of the form. \<open>onSubmit\<close> is given the state after the timer of \<open>calculateLoan\<close>
  has fired. \<open>handleSubmit\<close> is the form library's wrapper: it runs the schema and calls
  \<open>onSubmit\<close> only when the schema reports no issue.
\<close>

record PageState =
  calculatedLoan :: "LoanTerms option"
  validationErrors :: "string list"
  isCalculating :: bool
  formErrors :: "issue list"

definition onSubmit :: "LoanSizerForm \<Rightarrow> PageState \<Rightarrow> PageState" where
  "onSubmit data s =
     (let errs = validateInputs validationRules data;
          s = s\<lparr>validationErrors := errs\<rparr>
      in if length errs = 0
         then s\<lparr>calculatedLoan := Some (calculateLoan validationRules data),
                isCalculating := False\<rparr>
         else s)"

definition handleSubmit :: "LoanSizerForm \<Rightarrow> PageState \<Rightarrow> PageState" where
  "handleSubmit data s =
     (if loanSizerSchema data = [] then onSubmit data (s\<lparr>formErrors := []\<rparr>)
      else s\<lparr>formErrors := loanSizerSchema data\<rparr>)"

section \<open>Double precision\<close>

text \<open>
  The definitions above compute with the exact values of the numbers. The engine rounds the
  result of every arithmetic operation to the nearest double (53 significant bits, a tie
  going to the even neighbour), and a literal such as 0.03 to the nearest double as well.
  That rounding can move a product off the half-way point at which \<open>Math.round\<close> turns, so
  the amounts reported are fixed by the definitions of this section, which repeat the
  calculation with the rounding of each operation. \<open>dbl\<close> is that rounding on the exact
  value; the range of the exponent is not bounded (no overflow to infinity, no gradual
  underflow), which concerns no amount of the size of a deal. The inputs are taken as the
  values of the doubles that the form delivers.
\<close>

function bit_length :: "int \<Rightarrow> int" where
  "bit_length i = (if i \<le> 0 then 0 else bit_length (i div 2) + 1)"
  by pat_completeness auto
termination
  by (relation "measure nat") auto

declare bit_length.simps [simp del]

definition binary_exponent :: "rat \<Rightarrow> int" where
  "binary_exponent x =
     (let (p, q) = quotient_of \<bar>x\<bar>;
          d = bit_length p - bit_length q
      in if 2 powi d \<le> \<bar>x\<bar> then d else d - 1)"

definition round_half_even :: "rat \<Rightarrow> int" where
  "round_half_even y =
     (let f = \<lfloor>y\<rfloor>; r = y - of_int f
      in if r < 1 / 2 then f
         else if 1 / 2 < r then f + 1
         else if even f then f else f + 1)"

definition dbl :: "rat \<Rightarrow> rat" where
  "dbl x =
     (if x = 0 then 0
      else let u = 2 powi (binary_exponent x - 52) in of_int (round_half_even (x / u)) * u)"

text \<open>The four arithmetic operators on finite numbers, each rounding its exact result.\<close>

definition js_times :: "rat \<Rightarrow> rat \<Rightarrow> rat" where
  "js_times a b = dbl (a * b)"

definition js_over :: "rat \<Rightarrow> rat \<Rightarrow> rat" where
  "js_over a b = dbl (a / b)"

definition js_plus :: "rat \<Rightarrow> rat \<Rightarrow> rat" where
  "js_plus a b = dbl (a + b)"

definition js_minus :: "rat \<Rightarrow> rat \<Rightarrow> rat" where
  "js_minus a b = dbl (a - b)"

fun js_dbl :: "jsnum \<Rightarrow> jsnum" where
  "js_dbl (Finite x) = Finite (dbl x)"
| "js_dbl v = v"

text \<open>
  The formulas and the body of \<open>calculateLoan\<close> with these operators. \<open>Math.pow\<close> returns
  an approximation that the language leaves to the implementation; it is the parameter
  \<open>pw\<close>.
\<close>

definition loanFormulas_maxLoanAmount_dbl :: "rat \<Rightarrow> rat \<Rightarrow> rat" where
  "loanFormulas_maxLoanAmount_dbl a l = js_times a (js_over l 100)"

definition loanFormulas_interestRate_dbl :: "rat \<Rightarrow> string \<Rightarrow> rat" where
  "loanFormulas_interestRate_dbl fico experience =
     (let baseRate = 8.5;
          baseRate = (if 750 \<le> fico then js_minus baseRate 1.5
                      else if 700 \<le> fico then js_minus baseRate 1.0
                      else if 650 \<le> fico then js_minus baseRate 0.5
                      else baseRate);
          baseRate = (if experience = ''Professional'' then js_minus baseRate 0.5
                      else if experience = ''Experienced'' then js_minus baseRate 0.25
                      else baseRate)
      in max baseRate 6.0)"

definition loanFormulas_closingCosts_dbl :: "rat \<Rightarrow> rat" where
  "loanFormulas_closingCosts_dbl loanAmount = js_times loanAmount (dbl 0.03)"

definition loanFormulas_originationFee_dbl :: "rat \<Rightarrow> rat" where
  "loanFormulas_originationFee_dbl loanAmount = js_times loanAmount (dbl 0.01)"

definition local_maxLoanAmount_dbl :: "LoanSizerForm \<Rightarrow> rat" where
  "local_maxLoanAmount_dbl data = loanFormulas_maxLoanAmount_dbl (arv data) (local_ltv data)"

definition local_interestRate_dbl :: "LoanSizerForm \<Rightarrow> rat" where
  "local_interestRate_dbl data =
     loanFormulas_interestRate_dbl (borrowerFico data) (borrowerExperience data)"

definition local_closingCosts_dbl :: "LoanSizerForm \<Rightarrow> rat" where
  "local_closingCosts_dbl data = loanFormulas_closingCosts_dbl (local_maxLoanAmount_dbl data)"

definition local_originationFee_dbl :: "LoanSizerForm \<Rightarrow> rat" where
  "local_originationFee_dbl data = loanFormulas_originationFee_dbl (local_maxLoanAmount_dbl data)"

definition local_totalProjectCost_dbl :: "LoanSizerForm \<Rightarrow> rat" where
  "local_totalProjectCost_dbl data = js_plus (purchasePrice data) (rehabBudget data)"

definition local_downPayment_dbl :: "LoanSizerForm \<Rightarrow> rat" where
  "local_downPayment_dbl data =
     js_minus (local_totalProjectCost_dbl data) (local_maxLoanAmount_dbl data)"

definition monthlyPaymentExpr_dbl :: "(rat \<Rightarrow> int \<Rightarrow> jsnum) \<Rightarrow> rat \<Rightarrow> rat \<Rightarrow> jsnum" where
  "monthlyPaymentExpr_dbl pw m r =
     js_dbl (js_div (Finite (js_over (js_times m (js_over r 100)) 12))
       (js_dbl (js_sub (Finite 1) (pw (js_plus 1 (js_over (js_over r 100) 12)) (- 360)))))"

definition local_monthlyPayment_dbl :: "(rat \<Rightarrow> int \<Rightarrow> jsnum) \<Rightarrow> LoanSizerForm \<Rightarrow> jsnum" where
  "local_monthlyPayment_dbl pw data =
     monthlyPaymentExpr_dbl pw (local_maxLoanAmount_dbl data) (local_interestRate_dbl data)"

definition calculateLoan_dbl ::
  "(rat \<Rightarrow> int \<Rightarrow> jsnum) \<Rightarrow> ValidationRules \<Rightarrow> LoanSizerForm \<Rightarrow> LoanTerms" where
  "calculateLoan_dbl pw rules data =
     \<lparr> maxLoanAmount = js_round (local_maxLoanAmount_dbl data),
       interestRate = js_over (js_round (js_times (local_interestRate_dbl data) 100)) 100,
       ltv = local_ltv data,
       downPayment = js_round (local_downPayment_dbl data),
       closingCosts = js_round (local_closingCosts_dbl data),
       originationFee = js_round (local_originationFee_dbl data),
       monthlyPayment = js_round_num (local_monthlyPayment_dbl pw data),
       totalProjectCost = js_round (local_totalProjectCost_dbl data),
       approvalStatus =
         (if of_int (minFico rules) \<le> borrowerFico data then ''Approved''
          else ''Pending Review'') \<rparr>"

section \<open>The specification's formulations\<close>

text \<open>
  The interest rate and the loan-to-value table as the specification words them: one FICO
  discount (that of the highest tier reached), one experience discount, a floor; and a table
  of the four tiers with the Beginner's percentage for any other text.
\<close>

definition spec_ficoDiscount :: "rat \<Rightarrow> rat" where
  "spec_ficoDiscount fico =
     (if 750 \<le> fico then 1.5 else if 700 \<le> fico then 1.0 else if 650 \<le> fico then 0.5 else 0)"

definition spec_experienceDiscount :: "string \<Rightarrow> rat" where
  "spec_experienceDiscount experience =
     (if experience = ''Professional'' then 0.5
      else if experience = ''Experienced'' then 0.25 else 0)"

definition spec_interestRate :: "rat \<Rightarrow> string \<Rightarrow> rat" where
  "spec_interestRate fico experience =
     max (8.5 - spec_ficoDiscount fico - spec_experienceDiscount experience) 6.0"

definition spec_ltvTable :: "(string \<times> rat) list" where
  "spec_ltvTable =
     [(''Professional'', 85), (''Experienced'', 80), (''Intermediate'', 75), (''Beginner'', 70)]"

definition spec_ltv :: "string \<Rightarrow> rat" where
  "spec_ltv experience = (case map_of spec_ltvTable experience of Some l \<Rightarrow> l | None \<Rightarrow> 70)"



section \<open>The three checks of the validation\<close>

text \<open>The conditions of the three \<open>if\<close> statements of \<open>validateInputs\<close>, named.\<close>

definition ficoBelowMinimum :: "ValidationRules \<Rightarrow> LoanSizerForm \<Rightarrow> bool" where
  "ficoBelowMinimum rules data = (borrowerFico data < of_int (minFico rules))"

definition rehabOverBudget :: "ValidationRules \<Rightarrow> LoanSizerForm \<Rightarrow> bool" where
  "rehabOverBudget rules data = (maxRehabBudget rules (purchasePrice data) < rehabBudget data)"

definition arvRatioTooLow :: "ValidationRules \<Rightarrow> LoanSizerForm \<Rightarrow> bool" where
  "arvRatioTooLow rules data =
     js_less (js_div (Finite (arv data)) (Finite (purchasePrice data)))
       (minArvToPurchaseRatio rules)"

section \<open>Sample deals\<close>

definition scenario :: LoanSizerForm where
  "scenario =
     \<lparr> address = ''12 Oak Street'', transactionType = ''Purchase'', purchasePrice = 200000,
       rehabBudget = 50000, arv = 300000, borrowerFico = 760,
       borrowerExperience = ''Professional'' \<rparr>"

definition lowFico :: LoanSizerForm where
  "lowFico = scenario\<lparr>borrowerFico := 600\<rparr>"

definition overBudget :: LoanSizerForm where
  "overBudget = scenario\<lparr>rehabBudget := 120000, arv := 230000\<rparr>"

definition fractional :: LoanSizerForm where
  "fractional = scenario\<lparr>arv := 1270.75, borrowerExperience := ''Experienced''\<rparr>"

definition zeroPrice :: LoanSizerForm where
  "zeroPrice = scenario\<lparr>purchasePrice := 0, rehabBudget := 0\<rparr>"

definition tieDeal :: LoanSizerForm where
  "tieDeal =
     scenario\<lparr>purchasePrice := 1000, rehabBudget := 0, arv := 1285,
       borrowerExperience := ''Beginner''\<rparr>"

definition halfDeal :: LoanSizerForm where
  "halfDeal =
     scenario\<lparr>purchasePrice := 250000, arv := 350500, borrowerExperience := ''Beginner''\<rparr>"

definition emptyPage :: PageState where
  "emptyPage =
     \<lparr> calculatedLoan = None, validationErrors = [], isCalculating = False, formErrors = [] \<rparr>"

section \<open>Rounding\<close>

lemma js_round_of_int: "js_round (of_int z) = of_int z"
proof -
  have "\<lfloor>(of_int z :: rat) + 1 / 2\<rfloor> = z"
    by (rule floor_unique) simp_all
  then show ?thesis by (simp add: js_round_def)
qed

lemma js_round_numeral: "js_round (numeral n) = numeral n"
  using js_round_of_int [of "numeral n"] by simp

lemma js_round_neg_numeral: "js_round (- numeral n) = - numeral n"
  using js_round_of_int [of "- numeral n"] by simp

lemma js_round_integral: "js_round x \<in> \<int>"
  by (simp add: js_round_def)

lemma js_round_nearest: "\<bar>js_round x - x\<bar> \<le> 1 / 2"
  unfolding js_round_def by linarith


section \<open>The interest rate and the loan-to-value percentage\<close>

lemma interestRate_bounds:
  "6 \<le> loanFormulas_interestRate fico e" "loanFormulas_interestRate fico e \<le> 8.5"
  by (simp_all add: loanFormulas_interestRate_def Let_def)

lemma interestRate_round:
  "js_round (loanFormulas_interestRate fico e * 100) / 100 = loanFormulas_interestRate fico e"
  by (simp add: loanFormulas_interestRate_def Let_def js_round_numeral)

lemma interestRate_spec: "loanFormulas_interestRate fico e = spec_interestRate fico e"
  by (simp add: loanFormulas_interestRate_def spec_interestRate_def spec_ficoDiscount_def
      spec_experienceDiscount_def Let_def)

lemma ltv_spec: "loanFormulas_ltvByExperience e = spec_ltv e"
  by (simp add: loanFormulas_ltvByExperience_def spec_ltv_def spec_ltvTable_def)


text \<open>
  Claim C3. The interest rate is the base rate 8.5, less the discount of the single highest
  FICO tier reached (1.5 from 750, 1.0 from 700, 0.5 from 650, else none), less the experience
  discount (0.5 Professional, 0.25 Experienced, else none), and never below 6.0. The rate
  that \<open>calculateLoan\<close> reports is this value and is at least 6.0. The 1.5 discount applies
  exactly from 750 on: at 749 the discount is 1.0, at 750 and 751 it is 1.5.
\<close>

theorem interest_rate_tiers_and_floor:
  "loanFormulas_interestRate fico e = spec_interestRate fico e
   \<and> 6.0 \<le> loanFormulas_interestRate fico e
   \<and> interestRate (calculateLoan rules data) =
       spec_interestRate (borrowerFico data) (borrowerExperience data)
   \<and> 6.0 \<le> interestRate (calculateLoan rules data)
   \<and> (spec_ficoDiscount fico = 1.5) = (750 \<le> fico)
   \<and> loanFormulas_interestRate 749 ''Beginner'' = 8.5 - 1.0
   \<and> loanFormulas_interestRate 750 ''Beginner'' = 8.5 - 1.5
   \<and> loanFormulas_interestRate 751 ''Beginner'' = 8.5 - 1.5"
proof -
  have a: "loanFormulas_interestRate fico e = spec_interestRate fico e"
    by (rule interestRate_spec)
  have b: "6.0 \<le> loanFormulas_interestRate fico e"
    using interestRate_bounds(1) [of fico e] by simp
  have c: "interestRate (calculateLoan rules data) =
       spec_interestRate (borrowerFico data) (borrowerExperience data)"
  proof -
    have "interestRate (calculateLoan rules data) =
        loanFormulas_interestRate (borrowerFico data) (borrowerExperience data)"
      by (simp add: calculateLoan_def local_interestRate_def interestRate_round)
    then show ?thesis by (simp only: interestRate_spec)
  qed
  have d: "6.0 \<le> interestRate (calculateLoan rules data)"
    using interestRate_bounds(1) [of "borrowerFico data" "borrowerExperience data"]
    by (simp add: calculateLoan_def local_interestRate_def interestRate_round)
  have e: "(spec_ficoDiscount fico = 1.5) = (750 \<le> fico)"
    by (simp add: spec_ficoDiscount_def)
  have f: "loanFormulas_interestRate 749 ''Beginner'' = 8.5 - 1.0"
    "loanFormulas_interestRate 750 ''Beginner'' = 8.5 - 1.5"
    "loanFormulas_interestRate 751 ''Beginner'' = 8.5 - 1.5"
    by (simp_all add: loanFormulas_interestRate_def Let_def)
  from a b c d e f show ?thesis by blast
qed



section \<open>The sample deal\<close>

lemma scenario_ltv: "local_ltv scenario = 85"
  by (simp add: local_ltv_def scenario_def loanFormulas_ltvByExperience_def)

lemma scenario_maxLoanAmount: "local_maxLoanAmount scenario = 255000"
  by (simp add: local_maxLoanAmount_def scenario_ltv loanFormulas_maxLoanAmount_def)
     (simp add: scenario_def)

lemma scenario_totalProjectCost: "local_totalProjectCost scenario = 250000"
  by (simp add: local_totalProjectCost_def scenario_def)

lemma scenario_downPayment: "local_downPayment scenario = - 5000"
  by (simp add: local_downPayment_def scenario_totalProjectCost scenario_maxLoanAmount)

text \<open>
  Claim C5. For purchase price 200000, rehab budget 50000, after-repair value 300000, FICO
  760 and experience Professional, the terms are: loan-to-value 85, maximum loan amount
  255000, interest rate 6.5, closing costs 7650, origination fee 2550, total project cost
  250000, down payment -5000, approval status Approved.
\<close>

theorem scenario_terms:
  "ltv (calculateLoan validationRules scenario) = 85
   \<and> maxLoanAmount (calculateLoan validationRules scenario) = 255000
   \<and> interestRate (calculateLoan validationRules scenario) = 6.5
   \<and> closingCosts (calculateLoan validationRules scenario) = 7650
   \<and> originationFee (calculateLoan validationRules scenario) = 2550
   \<and> totalProjectCost (calculateLoan validationRules scenario) = 250000
   \<and> downPayment (calculateLoan validationRules scenario) = - 5000
   \<and> approvalStatus (calculateLoan validationRules scenario) = ''Approved''"
proof -
  have r: "local_interestRate scenario = 6.5"
    by (simp add: local_interestRate_def scenario_def loanFormulas_interestRate_def Let_def)
  have c: "local_closingCosts scenario = 7650"
    by (simp add: local_closingCosts_def scenario_maxLoanAmount loanFormulas_closingCosts_def)
  have f: "local_originationFee scenario = 2550"
    by (simp add: local_originationFee_def scenario_maxLoanAmount
        loanFormulas_originationFee_def)
  have a: "approvalStatus (calculateLoan validationRules scenario) = ''Approved''"
    by (simp add: calculateLoan_def validationRules_def scenario_def)
  show ?thesis
    using a
    by (simp add: calculateLoan_def scenario_ltv scenario_maxLoanAmount r c f
        scenario_totalProjectCost scenario_downPayment js_round_numeral js_round_neg_numeral)
qed

section \<open>The monthly payment\<close>



text \<open>
  The expression itself has no branch for a rate of 0: there both its numerator and its
  denominator are zero and the quotient is NaN.
\<close>

lemma monthlyPaymentExpr_zero_rate: "monthlyPaymentExpr 255000 0 = NaN"
  by (simp add: monthlyPaymentExpr_def js_pow_def)



section \<open>Validation and approval\<close>

lemma messages_distinct:
  "ficoMessage rules \<noteq> rehabMessage" "ficoMessage rules \<noteq> arvMessage"
  "rehabMessage \<noteq> arvMessage"
  by (simp_all add: ficoMessage_def rehabMessage_def arvMessage_def)

lemma validateInputs_unfold:
  "validateInputs rules data =
     (if ficoBelowMinimum rules data then [ficoMessage rules] else []) @
     (if rehabOverBudget rules data then [rehabMessage] else []) @
     (if arvRatioTooLow rules data then [arvMessage] else [])"
  by (simp add: validateInputs_def Let_def ficoBelowMinimum_def rehabOverBudget_def
      arvRatioTooLow_def)

lemma ficoMessage_default:
  "ficoMessage validationRules = ''FICO score must be at least 650 for approval''"
  by (simp add: ficoMessage_def validationRules_def js_toString_def nat_digits.simps
      digit_char_def)

lemma fico_member:
  "(ficoMessage rules \<in> set (validateInputs rules data)) = ficoBelowMinimum rules data"
  by (simp add: validateInputs_unfold messages_distinct messages_distinct [symmetric])

lemma rehab_member:
  "(rehabMessage \<in> set (validateInputs rules data)) = rehabOverBudget rules data"
  by (simp add: validateInputs_unfold messages_distinct messages_distinct [symmetric])

lemma arv_member:
  "(arvMessage \<in> set (validateInputs rules data)) = arvRatioTooLow rules data"
  by (simp add: validateInputs_unfold messages_distinct messages_distinct [symmetric])

lemma arvRatioTooLow_nonzero:
  "purchasePrice data \<noteq> 0 \<Longrightarrow>
   arvRatioTooLow rules data = (arv data / purchasePrice data < minArvToPurchaseRatio rules)"
  by (simp add: arvRatioTooLow_def)

lemma lowFico_checks:
  "ficoBelowMinimum validationRules lowFico" "\<not> rehabOverBudget validationRules lowFico"
  "\<not> arvRatioTooLow validationRules lowFico"
  by (simp_all add: ficoBelowMinimum_def rehabOverBudget_def arvRatioTooLow_def
      validationRules_def lowFico_def scenario_def)

text \<open>
  Claim C2. The approval status is Approved exactly when the borrower's FICO score is at
  least the \<open>minFico\<close> of the validation rules, and Pending Review otherwise; this is the
  threshold of the first check of the validation, so the status is Approved exactly when
  that check reports nothing. With the rules of the page (\<open>minFico\<close> 650) a score of 600
  gives one violation, that of the FICO threshold, and, when \<open>calculateLoan\<close> is called all
  the same, the status Pending Review. The threshold is the rule's, not a fixed 650: with
  \<open>minFico\<close> 700 a score of 680 is Pending Review.
\<close>

theorem approval_status_follows_minFico:
  "approvalStatus (calculateLoan rules data) =
     (if of_int (minFico rules) \<le> borrowerFico data then ''Approved'' else ''Pending Review'')
   \<and> (ficoMessage rules \<in> set (validateInputs rules data)) =
       (borrowerFico data < of_int (minFico rules))
   \<and> (approvalStatus (calculateLoan rules data) = ''Approved'') =
       (ficoMessage rules \<notin> set (validateInputs rules data))
   \<and> minFico validationRules = 650
   \<and> validateInputs validationRules lowFico = [''FICO score must be at least 650 for approval'']
   \<and> approvalStatus (calculateLoan validationRules lowFico) = ''Pending Review''
   \<and> approvalStatus (calculateLoan (validationRules\<lparr>minFico := 700\<rparr>)
        (scenario\<lparr>borrowerFico := 680\<rparr>)) = ''Pending Review''"
proof -
  have a: "approvalStatus (calculateLoan rules data) =
     (if of_int (minFico rules) \<le> borrowerFico data then ''Approved'' else ''Pending Review'')"
    by (simp add: calculateLoan_def)
  have b: "(ficoMessage rules \<in> set (validateInputs rules data)) =
       (borrowerFico data < of_int (minFico rules))"
    by (simp add: fico_member ficoBelowMinimum_def)
  have c: "(approvalStatus (calculateLoan rules data) = ''Approved'') =
       (ficoMessage rules \<notin> set (validateInputs rules data))"
    unfolding a b by auto
  have d: "minFico validationRules = 650" by (simp add: validationRules_def)
  have e: "validateInputs validationRules lowFico =
      [''FICO score must be at least 650 for approval'']"
    by (simp add: validateInputs_unfold lowFico_checks ficoMessage_default)
  have f: "approvalStatus (calculateLoan validationRules lowFico) = ''Pending Review''"
    by (simp add: calculateLoan_def validationRules_def lowFico_def scenario_def)
  have g: "approvalStatus (calculateLoan (validationRules\<lparr>minFico := 700\<rparr>)
        (scenario\<lparr>borrowerFico := 680\<rparr>)) = ''Pending Review''"
    by (simp add: calculateLoan_def)
  from a b c d e f g show ?thesis by blast
qed

lemma overBudget_checks:
  "\<not> ficoBelowMinimum validationRules overBudget" "rehabOverBudget validationRules overBudget"
  "arvRatioTooLow validationRules overBudget"
  by (simp_all add: ficoBelowMinimum_def rehabOverBudget_def arvRatioTooLow_def
      validationRules_def overBudget_def scenario_def)

text \<open>
  Claim C4. \<open>validateInputs\<close> evaluates its three checks (FICO minimum, rehab budget
  against the share of the purchase price, ratio of after-repair value to purchase price)
  independently of one another; the result lists the message of every violated check, in
  this order, and is empty exactly when none is violated. A deal that violates both the
  rehab-budget check and the ratio check gets both messages.
\<close>

theorem validateInputs_collects_all_violations:
  "validateInputs rules data =
     (if ficoBelowMinimum rules data then [ficoMessage rules] else []) @
     (if rehabOverBudget rules data then [rehabMessage] else []) @
     (if arvRatioTooLow rules data then [arvMessage] else [])
   \<and> (validateInputs rules data = []) =
       (\<not> ficoBelowMinimum rules data \<and> \<not> rehabOverBudget rules data
        \<and> \<not> arvRatioTooLow rules data)
   \<and> (ficoMessage rules \<in> set (validateInputs rules data)) = ficoBelowMinimum rules data
   \<and> (rehabMessage \<in> set (validateInputs rules data)) = rehabOverBudget rules data
   \<and> (arvMessage \<in> set (validateInputs rules data)) = arvRatioTooLow rules data
   \<and> validateInputs validationRules overBudget = [rehabMessage, arvMessage]"
proof -
  have e: "(validateInputs rules data = []) =
       (\<not> ficoBelowMinimum rules data \<and> \<not> rehabOverBudget rules data
        \<and> \<not> arvRatioTooLow rules data)"
    by (simp add: validateInputs_unfold)
  have o: "validateInputs validationRules overBudget = [rehabMessage, arvMessage]"
    by (simp add: validateInputs_unfold overBudget_checks)
  from validateInputs_unfold [of rules data] e fico_member [of rules data]
    rehab_member [of rules data] arv_member [of rules data] o
  show ?thesis by blast
qed

section \<open>The down payment\<close>





section \<open>The purchase price and the division of the ratio check\<close>

text \<open>
  \<open>validateInputs\<close> itself does not look at the sign of the purchase price: called with a
  purchase price of 0 it reports nothing. The guard is the schema, which \<open>handleSubmit\<close>
  runs first.
\<close>

lemma schema_purchasePrice:
  "purchasePrice data < 1000 \<Longrightarrow>
   (''purchasePrice'', Some ''Purchase price must be at least $1,000'') \<in> set (loanSizerSchema data)"
  by (simp add: loanSizerSchema_def)

lemma schema_valid_purchasePrice: "loanSizerSchema data = [] \<Longrightarrow> 1000 \<le> purchasePrice data"
  by (simp add: loanSizerSchema_def split: if_splits)

lemma scenario_valid: "loanSizerSchema scenario = []"
  by (simp add: loanSizerSchema_def scenario_def)

lemma zeroPrice_unguarded: "validateInputs validationRules zeroPrice = []"
  by (simp add: validateInputs_unfold ficoBelowMinimum_def rehabOverBudget_def
      arvRatioTooLow_def validationRules_def zeroPrice_def scenario_def)

text \<open>
  Claim C9. A deal with a purchase price of 0 or less is rejected by the schema with the
  field-level message of the purchase price, and \<open>handleSubmit\<close> then records the issues and
  does not call \<open>onSubmit\<close>, so the ratio check does not run on it. Whenever the schema
  passes and \<open>onSubmit\<close> runs, the purchase price is at least 1000 and the division of the
  ratio check is an ordinary finite quotient.
\<close>

theorem schema_rejects_nonpositive_price:
  "(purchasePrice data \<le> 0 \<longrightarrow>
      (''purchasePrice'', Some ''Purchase price must be at least $1,000'')
        \<in> set (loanSizerSchema data)
      \<and> handleSubmit data s = s\<lparr>formErrors := loanSizerSchema data\<rparr>)
   \<and> (loanSizerSchema data = [] \<longrightarrow>
        1000 \<le> purchasePrice data
        \<and> handleSubmit data s = onSubmit data (s\<lparr>formErrors := []\<rparr>)
        \<and> js_div (Finite (arv data)) (Finite (purchasePrice data)) =
            Finite (arv data / purchasePrice data))"
proof -
  have a: "(''purchasePrice'', Some ''Purchase price must be at least $1,000'')
        \<in> set (loanSizerSchema data)
      \<and> handleSubmit data s = s\<lparr>formErrors := loanSizerSchema data\<rparr>"
    if "purchasePrice data \<le> 0"
  proof -
    from that have "purchasePrice data < 1000" by simp
    then have m: "(''purchasePrice'', Some ''Purchase price must be at least $1,000'')
        \<in> set (loanSizerSchema data)" by (rule schema_purchasePrice)
    then have "loanSizerSchema data \<noteq> []" by auto
    then have "handleSubmit data s = s\<lparr>formErrors := loanSizerSchema data\<rparr>"
      by (simp add: handleSubmit_def)
    with m show ?thesis by simp
  qed
  have b: "1000 \<le> purchasePrice data
        \<and> handleSubmit data s = onSubmit data (s\<lparr>formErrors := []\<rparr>)
        \<and> js_div (Finite (arv data)) (Finite (purchasePrice data)) =
            Finite (arv data / purchasePrice data)"
    if "loanSizerSchema data = []"
  proof -
    from that have p: "1000 \<le> purchasePrice data" by (rule schema_valid_purchasePrice)
    then have "purchasePrice data \<noteq> 0" by auto
    then show ?thesis using p that by (simp add: handleSubmit_def)
  qed
  from a b show ?thesis by blast
qed

theorem schema_rejects_nonpositive_price_witness:
  "purchasePrice zeroPrice \<le> 0
   \<and> (''purchasePrice'', Some ''Purchase price must be at least $1,000'')
        \<in> set (loanSizerSchema zeroPrice)
   \<and> handleSubmit zeroPrice emptyPage = emptyPage\<lparr>formErrors := loanSizerSchema zeroPrice\<rparr>
   \<and> loanSizerSchema scenario = []
   \<and> handleSubmit scenario emptyPage = onSubmit scenario (emptyPage\<lparr>formErrors := []\<rparr>)
   \<and> js_div (Finite (arv scenario)) (Finite (purchasePrice scenario)) =
       Finite (arv scenario / purchasePrice scenario)"
proof -
  have z: "purchasePrice zeroPrice \<le> 0" by (simp add: zeroPrice_def)
  show ?thesis
    using z scenario_valid schema_rejects_nonpositive_price [of zeroPrice emptyPage] schema_rejects_nonpositive_price [of scenario emptyPage] by simp
qed

section \<open>Rounding to double precision\<close>

text \<open>
  The exponent found by \<open>binary_exponent\<close> is the binary order of magnitude of its
  argument, so \<open>dbl\<close> keeps 53 significant bits and is off by at most one part in \<open>2^53\<close>.
\<close>

lemma bit_length_bounds:
  "0 < i \<Longrightarrow> 1 \<le> bit_length i \<and> 2 ^ nat (bit_length i - 1) \<le> i \<and> i < 2 ^ nat (bit_length i)"
proof (induction i rule: bit_length.induct)
  case (1 i)
  show ?case
  proof (cases "i div 2 = 0")
    case True
    with 1(2) have i: "i = 1" by presburger
    have "bit_length 1 = 1" by (simp add: bit_length.simps [of 1] bit_length.simps [of 0])
    with i show ?thesis by simp
  next
    case False
    with 1(2) have pos: "0 < i div 2" by presburger
    from 1(2) have "\<not> i \<le> 0" by simp
    from 1(1) [OF this pos] have ih: "1 \<le> bit_length (i div 2)"
      "2 ^ nat (bit_length (i div 2) - 1) \<le> i div 2" "i div 2 < 2 ^ nat (bit_length (i div 2))"
      by simp_all
    have b: "bit_length i = bit_length (i div 2) + 1"
      using 1(2) by (simp add: bit_length.simps [of i])
    define k where "k = nat (bit_length (i div 2) - 1)"
    have k1: "nat (bit_length (i div 2)) = Suc k" using ih(1) by (simp add: k_def)
    have k2: "nat (bit_length i - 1) = Suc k" using ih(1) b by (simp add: k_def)
    have k3: "nat (bit_length i) = Suc (Suc k)" using ih(1) b by (simp add: k_def)
    have lo: "(2::int) ^ k \<le> i div 2" using ih(2) by (simp add: k_def)
    have hi: "i div 2 < (2::int) ^ Suc k" using ih(3) by (simp add: k1)
    have "2 * (i div 2) \<le> i" "i < 2 * (i div 2) + 2" by presburger+
    with lo hi have r: "(2::int) ^ Suc k \<le> i" "i < (2::int) ^ Suc (Suc k)" by simp_all
    have "1 \<le> bit_length i" using b ih(1) by simp
    moreover have "2 ^ nat (bit_length i - 1) \<le> i" unfolding k2 by (rule r(1))
    moreover have "i < 2 ^ nat (bit_length i)" unfolding k3 by (rule r(2))
    ultimately show ?thesis by blast
  qed
qed

lemma binary_exponent_bounds:
  assumes "x \<noteq> 0"
  shows "2 powi binary_exponent x \<le> \<bar>x\<bar> \<and> \<bar>x\<bar> < 2 powi (binary_exponent x + 1)"
proof -
  obtain p q where pq: "quotient_of \<bar>x\<bar> = (p, q)" by (cases "quotient_of \<bar>x\<bar>")
  then have q: "0 < q" by (rule quotient_of_denom_pos)
  from pq have x: "\<bar>x\<bar> = of_int p / of_int q" by (rule quotient_of_div)
  have "0 < \<bar>x\<bar>" using assms by simp
  then have p: "0 < p" using q x by (simp add: zero_less_divide_iff)
  define a where "a = bit_length p"
  define b where "b = bit_length q"
  from bit_length_bounds [OF p] have a: "1 \<le> a" "2 ^ nat (a - 1) \<le> p" "p < 2 ^ nat a"
    by (simp_all add: a_def)
  from bit_length_bounds [OF q] have b: "1 \<le> b" "2 ^ nat (b - 1) \<le> q" "q < 2 ^ nat b"
    by (simp_all add: b_def)
  have pa: "(2::rat) powi (a - 1) \<le> of_int p" "of_int p < (2::rat) powi a"
  proof -
    have "(of_int (2 ^ nat (a - 1)) :: rat) \<le> of_int p" using a(2) by (simp only: of_int_le_iff)
    then show "(2::rat) powi (a - 1) \<le> of_int p" using a(1) by (simp add: power_int_nonneg_exp)
    have "(of_int p :: rat) < of_int (2 ^ nat a)" using a(3) by (simp only: of_int_less_iff)
    then show "of_int p < (2::rat) powi a" using a(1) by (simp add: power_int_nonneg_exp)
  qed
  have qb: "(2::rat) powi (b - 1) \<le> of_int q" "of_int q < (2::rat) powi b"
  proof -
    have "(of_int (2 ^ nat (b - 1)) :: rat) \<le> of_int q" using b(2) by (simp only: of_int_le_iff)
    then show "(2::rat) powi (b - 1) \<le> of_int q" using b(1) by (simp add: power_int_nonneg_exp)
    have "(of_int q :: rat) < of_int (2 ^ nat b)" using b(3) by (simp only: of_int_less_iff)
    then show "of_int q < (2::rat) powi b" using b(1) by (simp add: power_int_nonneg_exp)
  qed
  have qpos: "(0::rat) < of_int q" using q by simp
  have upper: "\<bar>x\<bar> < 2 powi (a - b + 1)"
  proof -
    have "of_int p < (2::rat) powi a" by (rule pa(2))
    also have "(2::rat) powi a = 2 powi (a - b + 1) * 2 powi (b - 1)"
      by (simp add: power_int_add [symmetric])
    also have "\<dots> \<le> 2 powi (a - b + 1) * of_int q"
      using qb(1) by (intro mult_left_mono) simp_all
    finally show ?thesis using qpos by (simp add: x pos_divide_less_eq)
  qed
  have lower: "2 powi (a - b - 1) \<le> \<bar>x\<bar>"
  proof -
    have "2 powi (a - b - 1) * of_int q \<le> 2 powi (a - b - 1) * (2::rat) powi b"
      using qb(2) by (intro mult_left_mono) simp_all
    also have "\<dots> = 2 powi (a - 1)" by (simp add: power_int_add [symmetric])
    also have "\<dots> \<le> of_int p" by (rule pa(1))
    finally show ?thesis using qpos by (simp add: x pos_le_divide_eq)
  qed
  have e: "binary_exponent x = (if 2 powi (a - b) \<le> \<bar>x\<bar> then a - b else a - b - 1)"
    by (simp add: binary_exponent_def pq a_def b_def Let_def)
  show ?thesis
  proof (cases "2 powi (a - b) \<le> \<bar>x\<bar>")
    case True
    then show ?thesis using upper by (simp add: e)
  next
    case False
    then show ?thesis using lower by (simp add: e)
  qed
qed

lemma binary_exponent_unique:
  assumes "2 powi e \<le> \<bar>x\<bar>" and "\<bar>x\<bar> < 2 powi (e + 1)"
  shows "binary_exponent x = e"
proof -
  have "0 < (2::rat) powi e" by simp
  then have "0 < \<bar>x\<bar>" using assms(1) by (rule less_le_trans)
  then have "x \<noteq> 0" by simp
  from binary_exponent_bounds [OF this]
  have b: "2 powi binary_exponent x \<le> \<bar>x\<bar>" "\<bar>x\<bar> < 2 powi (binary_exponent x + 1)"
    by simp_all
  have "\<not> binary_exponent x < e"
  proof
    assume "binary_exponent x < e"
    then have "binary_exponent x + 1 \<le> e" by simp
    then have "(2::rat) powi (binary_exponent x + 1) \<le> 2 powi e"
      by (intro power_int_increasing) simp_all
    with b(2) assms(1) show False by simp
  qed
  moreover have "\<not> e < binary_exponent x"
  proof
    assume "e < binary_exponent x"
    then have "e + 1 \<le> binary_exponent x" by simp
    then have "(2::rat) powi (e + 1) \<le> 2 powi binary_exponent x"
      by (intro power_int_increasing) simp_all
    with b(1) assms(2) show False by simp
  qed
  ultimately show ?thesis by simp
qed

lemma round_half_even_nearest: "\<bar>of_int (round_half_even y) - y\<bar> \<le> 1 / 2"
proof -
  define f where "f = \<lfloor>y\<rfloor>"
  have f: "of_int f \<le> y" "y < of_int f + 1" unfolding f_def by linarith+
  consider (lo) "y - of_int f < 1 / 2" | (hi) "1 / 2 < y - of_int f"
    | (tie) "y - of_int f = 1 / 2" by linarith
  then show ?thesis
  proof cases
    case lo
    then have "round_half_even y = f"
      unfolding round_half_even_def Let_def f_def [symmetric] by simp
    then show ?thesis using f lo by simp
  next
    case hi
    then have "round_half_even y = f + 1"
      unfolding round_half_even_def Let_def f_def [symmetric] by simp
    then show ?thesis using f hi by simp
  next
    case tie
    then have "round_half_even y = f \<or> round_half_even y = f + 1"
      unfolding round_half_even_def Let_def f_def [symmetric] by simp
    then show ?thesis using f tie by auto
  qed
qed

lemma dbl_error: "\<bar>dbl x - x\<bar> \<le> \<bar>x\<bar> / 2 ^ 53"
proof (cases "x = 0")
  case True
  then show ?thesis by (simp add: dbl_def)
next
  case False
  define e where "e = binary_exponent x"
  define u :: rat where "u = 2 powi (e - 52)"
  have u: "0 < u" by (simp add: u_def)
  have d: "dbl x = of_int (round_half_even (x / u)) * u"
    using False by (simp add: dbl_def Let_def u_def e_def)
  have "dbl x - x = (of_int (round_half_even (x / u)) - x / u) * u"
    using u by (simp add: d field_simps)
  then have "\<bar>dbl x - x\<bar> = \<bar>of_int (round_half_even (x / u)) - x / u\<bar> * u"
    using u by (simp add: abs_mult)
  also have "\<dots> \<le> 1 / 2 * u"
    using round_half_even_nearest [of "x / u"] u by (intro mult_right_mono) simp_all
  also have "1 / 2 * u = 2 powi e / 2 ^ 53"
  proof -
    have "(2::rat) powi e = 2 powi ((e - 52) + 52)" by simp
    also have "\<dots> = 2 powi (e - 52) * 2 powi 52" by (rule power_int_add) simp
    finally show ?thesis by (simp add: u_def)
  qed
  also have "\<dots> \<le> \<bar>x\<bar> / 2 ^ 53"
    using binary_exponent_bounds [OF False] by (simp add: e_def divide_right_mono)
  finally show ?thesis .
qed

text \<open>
  The interest rate is the same in double precision: every rate is a multiple of 0.25, and
  the subtractions that produce it are exact. The rate reported is the rate itself.
\<close>

lemma dbl_rates:
  "dbl 7 = 7" "dbl 8 = 8" "dbl (15 / 2) = 15 / 2" "dbl (13 / 2) = 13 / 2"
  "dbl (27 / 4) = 27 / 4" "dbl (29 / 4) = 29 / 4" "dbl (31 / 4) = 31 / 4"
  "dbl (33 / 4) = 33 / 4"
  by code_simp+

lemma interestRate_dbl_exact:
  "loanFormulas_interestRate_dbl fico e = loanFormulas_interestRate fico e"
  by (simp add: loanFormulas_interestRate_dbl_def loanFormulas_interestRate_def Let_def
      js_minus_def dbl_rates)

lemma interestRate_values:
  "loanFormulas_interestRate fico e \<in> {8.5, 8.25, 8, 7.75, 7.5, 7.25, 7, 6.75, 6.5}"
  by (simp add: loanFormulas_interestRate_def Let_def)

lemma reported_rate_values:
  "js_over (js_round (js_times 8.5 100)) 100 = 8.5"
  "js_over (js_round (js_times 8.25 100)) 100 = 8.25"
  "js_over (js_round (js_times 8 100)) 100 = 8"
  "js_over (js_round (js_times 7.75 100)) 100 = 7.75"
  "js_over (js_round (js_times 7.5 100)) 100 = 7.5"
  "js_over (js_round (js_times 7.25 100)) 100 = 7.25"
  "js_over (js_round (js_times 7 100)) 100 = 7"
  "js_over (js_round (js_times 6.75 100)) 100 = 6.75"
  "js_over (js_round (js_times 6.5 100)) 100 = 6.5"
  by code_simp+

lemma reported_rate:
  "js_over (js_round (js_times (loanFormulas_interestRate fico e) 100)) 100 =
     loanFormulas_interestRate fico e"
proof -
  define r where "r = loanFormulas_interestRate fico e"
  have "r \<in> {8.5, 8.25, 8, 7.75, 7.5, 7.25, 7, 6.75, 6.5}"
    unfolding r_def by (rule interestRate_values)
  then have "js_over (js_round (js_times r 100)) 100 = r"
    by (elim insertE emptyE) (simp_all only: reported_rate_values)
  then show ?thesis unfolding r_def .
qed

lemma rate_times_100:
  "js_round (js_times (loanFormulas_interestRate fico e) 100) =
     loanFormulas_interestRate fico e * 100"
proof -
  define r where "r = loanFormulas_interestRate fico e"
  have v: "js_round (js_times 8.5 100) = 8.5 * 100" "js_round (js_times 8.25 100) = 8.25 * 100"
    "js_round (js_times 8 100) = 8 * 100" "js_round (js_times 7.75 100) = 7.75 * 100"
    "js_round (js_times 7.5 100) = 7.5 * 100" "js_round (js_times 7.25 100) = 7.25 * 100"
    "js_round (js_times 7 100) = 7 * 100" "js_round (js_times 6.75 100) = 6.75 * 100"
    "js_round (js_times 6.5 100) = 6.5 * 100"
    by code_simp+
  have "r \<in> {8.5, 8.25, 8, 7.75, 7.5, 7.25, 7, 6.75, 6.5}"
    unfolding r_def by (rule interestRate_values)
  then have "js_round (js_times r 100) = r * 100"
    by (elim insertE emptyE) (simp_all only: v)
  then show ?thesis unfolding r_def .
qed

text \<open>
  The sample deal has the same terms in double precision as with exact numbers.
\<close>

lemma scenario_dbl:
  "js_round (local_maxLoanAmount_dbl scenario) = 255000"
  "js_over (js_round (js_times (local_interestRate_dbl scenario) 100)) 100 = 6.5"
  "js_round (local_closingCosts_dbl scenario) = 7650"
  "js_round (local_originationFee_dbl scenario) = 2550"
  "js_round (local_totalProjectCost_dbl scenario) = 250000"
  "js_round (local_downPayment_dbl scenario) = - 5000"
  by code_simp+

lemma scenario_terms_double:
  "ltv (calculateLoan_dbl pw validationRules scenario) = 85
   \<and> maxLoanAmount (calculateLoan_dbl pw validationRules scenario) = 255000
   \<and> interestRate (calculateLoan_dbl pw validationRules scenario) = 6.5
   \<and> closingCosts (calculateLoan_dbl pw validationRules scenario) = 7650
   \<and> originationFee (calculateLoan_dbl pw validationRules scenario) = 2550
   \<and> totalProjectCost (calculateLoan_dbl pw validationRules scenario) = 250000
   \<and> downPayment (calculateLoan_dbl pw validationRules scenario) = - 5000
   \<and> approvalStatus (calculateLoan_dbl pw validationRules scenario) = ''Approved''"
proof -
  have a: "approvalStatus (calculateLoan_dbl pw validationRules scenario) = ''Approved''"
    by (simp add: calculateLoan_dbl_def validationRules_def scenario_def)
  show ?thesis
    using a by (simp add: calculateLoan_dbl_def scenario_ltv scenario_dbl)
qed

section \<open>The maximum loan amount in double precision\<close>

lemma maxLoanAmount_dbl_error:
  "\<bar>js_times a (js_over l 100) - a * (l / 100)\<bar> \<le> \<bar>a * (l / 100)\<bar> / 2 ^ 51"
proof -
  define q where "q = l / 100"
  define q' where "q' = dbl q"
  define p where "p = a * q'"
  have e1: "\<bar>q' - q\<bar> \<le> \<bar>q\<bar> / 2 ^ 53" unfolding q'_def by (rule dbl_error)
  have e2: "\<bar>dbl p - p\<bar> \<le> \<bar>p\<bar> / 2 ^ 53" by (rule dbl_error)
  have "\<bar>q'\<bar> \<le> \<bar>q\<bar> + \<bar>q\<bar> / 2 ^ 53" using e1 by linarith
  then have "\<bar>q'\<bar> \<le> 2 * \<bar>q\<bar>" by simp
  then have "\<bar>a\<bar> * \<bar>q'\<bar> \<le> \<bar>a\<bar> * (2 * \<bar>q\<bar>)" by (intro mult_left_mono) simp_all
  then have pb: "\<bar>p\<bar> \<le> 2 * \<bar>a * q\<bar>" by (simp add: p_def abs_mult)
  have "\<bar>a\<bar> * \<bar>q' - q\<bar> \<le> \<bar>a\<bar> * (\<bar>q\<bar> / 2 ^ 53)"
    using e1 by (intro mult_left_mono) simp_all
  then have d1: "\<bar>p - a * q\<bar> \<le> \<bar>a * q\<bar> / 2 ^ 53"
    by (simp add: p_def abs_mult right_diff_distrib [symmetric])
  have "\<bar>dbl p - a * q\<bar> \<le> \<bar>dbl p - p\<bar> + \<bar>p - a * q\<bar>" by linarith
  also have "\<dots> \<le> \<bar>p\<bar> / 2 ^ 53 + \<bar>a * q\<bar> / 2 ^ 53" using e2 d1 by linarith
  also have "\<dots> \<le> 2 * \<bar>a * q\<bar> / 2 ^ 53 + \<bar>a * q\<bar> / 2 ^ 53"
    using pb by (simp add: divide_right_mono)
  also have "\<dots> \<le> \<bar>a * q\<bar> / 2 ^ 51" by simp
  finally show ?thesis by (simp add: js_times_def js_over_def p_def q'_def q_def)
qed

lemma tieDeal_maxLoanAmount: "local_maxLoanAmount_dbl tieDeal = 7912085673476095 / 2 ^ 43"
  by code_simp

lemma tieDeal_exact: "arv tieDeal * (local_ltv tieDeal / 100) = 1799 / 2"
  by code_simp

lemma tieDeal_reported: "js_round (local_maxLoanAmount_dbl tieDeal) = 899"
  by code_simp

lemma tieDeal_ideal: "js_round (arv tieDeal * (local_ltv tieDeal / 100)) = 900"
  by code_simp

lemma tieDeal_valid: "loanSizerSchema tieDeal = []" "validateInputs validationRules tieDeal = []"
  by code_simp+

lemma scenario_maxLoanAmount_dbl: "local_maxLoanAmount_dbl scenario = 255000"
  by code_simp

text \<open>
  Claim C6, as stated, fails: the unrounded maximum loan amount is not always the exact
  product. For an after-repair value of 1285 and a Beginner (a deal that passes the schema
  and the validation) the exact product is 899.5; the engine holds the double just below
  it, 899.4999999999999, and reports 899 where the exact product would be reported as 900.
\<close>

theorem max_loan_amount_not_exact_product:
  "loanSizerSchema tieDeal = [] \<and> validateInputs validationRules tieDeal = []
   \<and> local_maxLoanAmount_dbl tieDeal = 7912085673476095 / 2 ^ 43
   \<and> arv tieDeal * (local_ltv tieDeal / 100) = 1799 / 2
   \<and> local_maxLoanAmount_dbl tieDeal \<noteq> arv tieDeal * (local_ltv tieDeal / 100)
   \<and> maxLoanAmount (calculateLoan_dbl js_pow validationRules tieDeal) = 899
   \<and> js_round (arv tieDeal * (local_ltv tieDeal / 100)) = 900"
proof -
  have n: "local_maxLoanAmount_dbl tieDeal \<noteq> arv tieDeal * (local_ltv tieDeal / 100)"
    unfolding tieDeal_maxLoanAmount tieDeal_exact by simp
  have r: "maxLoanAmount (calculateLoan_dbl js_pow validationRules tieDeal) = 899"
    by (simp add: calculateLoan_dbl_def tieDeal_reported)
  from tieDeal_valid tieDeal_maxLoanAmount tieDeal_exact n r tieDeal_ideal
  show ?thesis by blast
qed

text \<open>
  Claim C6, amended. The unrounded maximum loan amount is the product of the after-repair
  value and the hundredth of the loan-to-value percentage as double arithmetic computes
  it: the quotient rounded to the nearest double, then the product rounded to the nearest
  double, the percentage being the table's entry for the borrower's experience tier. It
  differs from the exact product by at most one part in \<open>2^51\<close> of it, and the amount
  reported is its rounding to a whole number. For the sample deal it is the exact
  product, 255000; for an after-repair value of 1285 and a Beginner it is the double just
  below 899.5, reported as 899.
\<close>

theorem max_loan_amount_is_double_product:
  "local_maxLoanAmount_dbl data = dbl (arv data * dbl (local_ltv data / 100))
   \<and> local_ltv data = spec_ltv (borrowerExperience data)
   \<and> maxLoanAmount (calculateLoan_dbl pw rules data) =
       js_round (dbl (arv data * dbl (spec_ltv (borrowerExperience data) / 100)))
   \<and> \<bar>local_maxLoanAmount_dbl data - arv data * (spec_ltv (borrowerExperience data) / 100)\<bar>
       \<le> \<bar>arv data * (spec_ltv (borrowerExperience data) / 100)\<bar> / 2 ^ 51
   \<and> local_maxLoanAmount_dbl scenario = arv scenario * (local_ltv scenario / 100)
   \<and> local_maxLoanAmount_dbl tieDeal = 7912085673476095 / 2 ^ 43
   \<and> maxLoanAmount (calculateLoan_dbl pw validationRules tieDeal) = 899"
proof -
  have a: "local_maxLoanAmount_dbl data = dbl (arv data * dbl (local_ltv data / 100))"
    by (simp add: local_maxLoanAmount_dbl_def loanFormulas_maxLoanAmount_dbl_def js_times_def
        js_over_def)
  have b: "local_ltv data = spec_ltv (borrowerExperience data)"
    by (simp add: local_ltv_def ltv_spec)
  have c: "maxLoanAmount (calculateLoan_dbl pw rules data) =
       js_round (dbl (arv data * dbl (spec_ltv (borrowerExperience data) / 100)))"
    unfolding b [symmetric] a [symmetric] by (simp add: calculateLoan_dbl_def)
  have d: "\<bar>local_maxLoanAmount_dbl data - arv data * (spec_ltv (borrowerExperience data) / 100)\<bar>
       \<le> \<bar>arv data * (spec_ltv (borrowerExperience data) / 100)\<bar> / 2 ^ 51"
    unfolding b [symmetric] local_maxLoanAmount_dbl_def loanFormulas_maxLoanAmount_dbl_def
    by (rule maxLoanAmount_dbl_error)
  have e: "local_maxLoanAmount_dbl scenario = arv scenario * (local_ltv scenario / 100)"
    using scenario_maxLoanAmount scenario_maxLoanAmount_dbl
    by (simp add: local_maxLoanAmount_def loanFormulas_maxLoanAmount_def)
  have f: "maxLoanAmount (calculateLoan_dbl pw validationRules tieDeal) = 899"
    by (simp add: calculateLoan_dbl_def tieDeal_reported)
  from a b c d e tieDeal_maxLoanAmount f show ?thesis by blast
qed

section \<open>Rounding of the outputs\<close>

lemma halfDeal_reported:
  "js_round (local_maxLoanAmount_dbl halfDeal) = 245350"
  "js_round (local_closingCosts_dbl halfDeal) = 7360"
  "js_round (local_originationFee_dbl halfDeal) = 2453"
  by code_simp+

lemma halfDeal_valid: "loanSizerSchema halfDeal = []" "validateInputs validationRules halfDeal = []"
  by code_simp+

lemma fractional_dbl:
  "js_round (local_maxLoanAmount_dbl fractional) = 1017"
  "js_round (local_closingCosts_dbl fractional) = 30"
  "js_round (loanFormulas_closingCosts_dbl 1017) = 31"
  by code_simp+

text \<open>
  Claim C7. Rounding to whole units is applied once, to the outputs. Each monetary output
  is \<open>Math.round\<close> of a value computed from values that were not so rounded: the closing
  costs, the origination fee, the down payment and the monthly payment read the unrounded
  loan amount, the monthly payment also the unrounded rate. A finite monthly payment is
  reported as its rounding. \<open>Math.round\<close> gives a whole number at most one half away. The
  interest rate reported is the rounding of a hundred times the rate, over a hundred. For
  an after-repair value of 350500 and a Beginner the closing costs reported are 7360 and
  the origination fee 2453. Rounding the loan amount first would change a result: for an
  after-repair value of 1270.75 and an Experienced borrower the closing costs are 30, and
  31 when computed from the rounded loan amount.
\<close>

theorem outputs_rounded_once:
  "maxLoanAmount (calculateLoan_dbl pw rules data) =
     js_round (js_times (arv data) (js_over (local_ltv data) 100))
   \<and> closingCosts (calculateLoan_dbl pw rules data) =
       js_round (js_times (js_times (arv data) (js_over (local_ltv data) 100)) (dbl 0.03))
   \<and> originationFee (calculateLoan_dbl pw rules data) =
       js_round (js_times (js_times (arv data) (js_over (local_ltv data) 100)) (dbl 0.01))
   \<and> totalProjectCost (calculateLoan_dbl pw rules data) =
       js_round (js_plus (purchasePrice data) (rehabBudget data))
   \<and> downPayment (calculateLoan_dbl pw rules data) =
       js_round (js_minus (js_plus (purchasePrice data) (rehabBudget data))
         (js_times (arv data) (js_over (local_ltv data) 100)))
   \<and> monthlyPayment (calculateLoan_dbl pw rules data) =
       (case monthlyPaymentExpr_dbl pw (js_times (arv data) (js_over (local_ltv data) 100))
              (loanFormulas_interestRate_dbl (borrowerFico data) (borrowerExperience data)) of
          Finite p \<Rightarrow> Finite (js_round p) | v \<Rightarrow> v)
   \<and> interestRate (calculateLoan_dbl pw rules data) =
       js_over (js_round (js_times
         (loanFormulas_interestRate_dbl (borrowerFico data) (borrowerExperience data)) 100)) 100
   \<and> interestRate (calculateLoan_dbl pw rules data) * 100 =
       js_round (loanFormulas_interestRate_dbl (borrowerFico data) (borrowerExperience data) * 100)
   \<and> js_round x \<in> \<int> \<and> \<bar>js_round x - x\<bar> \<le> 1 / 2
   \<and> closingCosts (calculateLoan_dbl pw validationRules halfDeal) = 7360
   \<and> originationFee (calculateLoan_dbl pw validationRules halfDeal) = 2453
   \<and> closingCosts (calculateLoan_dbl pw validationRules fractional) = 30
   \<and> js_round (loanFormulas_closingCosts_dbl
         (maxLoanAmount (calculateLoan_dbl pw validationRules fractional))) = 31"
proof -
  have m: "local_maxLoanAmount_dbl data = js_times (arv data) (js_over (local_ltv data) 100)"
    by (simp add: local_maxLoanAmount_dbl_def loanFormulas_maxLoanAmount_dbl_def)
  have a: "maxLoanAmount (calculateLoan_dbl pw rules data) =
     js_round (js_times (arv data) (js_over (local_ltv data) 100))"
    by (simp add: calculateLoan_dbl_def m)
  have b: "closingCosts (calculateLoan_dbl pw rules data) =
       js_round (js_times (js_times (arv data) (js_over (local_ltv data) 100)) (dbl 0.03))"
    by (simp add: calculateLoan_dbl_def local_closingCosts_dbl_def
        loanFormulas_closingCosts_dbl_def m)
  have c: "originationFee (calculateLoan_dbl pw rules data) =
       js_round (js_times (js_times (arv data) (js_over (local_ltv data) 100)) (dbl 0.01))"
    by (simp add: calculateLoan_dbl_def local_originationFee_dbl_def
        loanFormulas_originationFee_dbl_def m)
  have d: "totalProjectCost (calculateLoan_dbl pw rules data) =
       js_round (js_plus (purchasePrice data) (rehabBudget data))"
    by (simp add: calculateLoan_dbl_def local_totalProjectCost_dbl_def)
  have e: "downPayment (calculateLoan_dbl pw rules data) =
       js_round (js_minus (js_plus (purchasePrice data) (rehabBudget data))
         (js_times (arv data) (js_over (local_ltv data) 100)))"
    by (simp add: calculateLoan_dbl_def local_downPayment_dbl_def
        local_totalProjectCost_dbl_def m)
  have f: "monthlyPayment (calculateLoan_dbl pw rules data) =
       (case monthlyPaymentExpr_dbl pw (js_times (arv data) (js_over (local_ltv data) 100))
              (loanFormulas_interestRate_dbl (borrowerFico data) (borrowerExperience data)) of
          Finite p \<Rightarrow> Finite (js_round p) | v \<Rightarrow> v)"
    by (simp add: calculateLoan_dbl_def local_monthlyPayment_dbl_def local_interestRate_dbl_def
        m split: jsnum.split)
  have g: "interestRate (calculateLoan_dbl pw rules data) =
       js_over (js_round (js_times
         (loanFormulas_interestRate_dbl (borrowerFico data) (borrowerExperience data)) 100)) 100"
    by (simp add: calculateLoan_dbl_def local_interestRate_dbl_def)
  have h: "interestRate (calculateLoan_dbl pw rules data) * 100 =
       js_round (loanFormulas_interestRate_dbl (borrowerFico data) (borrowerExperience data) * 100)"
  proof -
    have "interestRate (calculateLoan_dbl pw rules data) =
        loanFormulas_interestRate (borrowerFico data) (borrowerExperience data)"
      unfolding g interestRate_dbl_exact by (rule reported_rate)
    moreover have "js_round (loanFormulas_interestRate (borrowerFico data)
        (borrowerExperience data) * 100) =
        loanFormulas_interestRate (borrowerFico data) (borrowerExperience data) * 100"
      using interestRate_round [of "borrowerFico data" "borrowerExperience data"] by simp
    ultimately show ?thesis by (simp only: interestRate_dbl_exact)
  qed
  have i: "closingCosts (calculateLoan_dbl pw validationRules halfDeal) = 7360"
    "originationFee (calculateLoan_dbl pw validationRules halfDeal) = 2453"
    by (simp_all add: calculateLoan_dbl_def halfDeal_reported)
  have j: "closingCosts (calculateLoan_dbl pw validationRules fractional) = 30"
    by (simp add: calculateLoan_dbl_def fractional_dbl)
  have k: "js_round (loanFormulas_closingCosts_dbl
         (maxLoanAmount (calculateLoan_dbl pw validationRules fractional))) = 31"
    by (simp add: calculateLoan_dbl_def fractional_dbl)
  from a b c d e f g h i j k js_round_integral [of x] js_round_nearest [of x]
  show ?thesis by blast
qed

end
